theory Spec2Isabelle
  imports Main "HOL-Library.Word"
begin

section \<open>JavaScript values\<close>

text \<open>
  The two scripts exchange plain JavaScript values: the responses of the message
  listeners and the JSON body of the upload. An object is an association list of its
  own properties; a thrown error is the string of its \<open>message\<close>, carried on the left
  of a sum.
\<close>

datatype jsval =
    JUndefined
  | JNull
  | JBool bool
  | JNum int
  | JStr string
  | JArr "jsval list"
  | JObj "(string \<times> jsval) list"

type_synonym 'a thrown = "string + 'a"

text \<open>The truthiness test of \<open>if (v)\<close> and \<open>v ? a : b\<close>.\<close>

fun truthy :: "jsval \<Rightarrow> bool" where
  "truthy JUndefined = False"
| "truthy JNull = False"
| "truthy (JBool b) = b"
| "truthy (JNum n) = (n \<noteq> 0)"
| "truthy (JStr s) = (s \<noteq> [])"
| "truthy (JArr vs) = True"
| "truthy (JObj kvs) = True"

text \<open>
  Reading the property \<open>success\<close> of a value: a TypeError on \<open>undefined\<close> and \<open>null\<close>,
  the property of an object, \<open>undefined\<close> on everything else (no primitive and no array
  has a property of that name).
\<close>

fun read_success :: "jsval \<Rightarrow> jsval thrown" where
  "read_success JUndefined =
     Inl ''Cannot read properties of undefined (reading 'success')''"
| "read_success JNull =
     Inl ''Cannot read properties of null (reading 'success')''"
| "read_success (JObj kvs) =
     Inr (case map_of kvs ''success'' of None \<Rightarrow> JUndefined | Some v \<Rightarrow> v)"
| "read_success v = Inr JUndefined"

text \<open>Decimal rendering of a number inside a template string.\<close>

definition digit_char :: "nat \<Rightarrow> char" where
  "digit_char d = ''0123456789'' ! d"

fun show_nat :: "nat \<Rightarrow> string" where
  "show_nat n =
     (if n < 10 then [digit_char n] else show_nat (n div 10) @ [digit_char (n mod 10)])"

declare show_nat.simps [simp del]

definition show_int :: "int \<Rightarrow> string" where
  "show_int i = (if i < 0 then ''-'' @ show_nat (nat (- i)) else show_nat (nat i))"

text \<open>
  Assigning a property: an existing key keeps its place and takes the new value, a new
  key goes to the end.
\<close>

fun set_prop :: "string \<Rightarrow> jsval \<Rightarrow> (string \<times> jsval) list \<Rightarrow> (string \<times> jsval) list" where
  "set_prop k v [] = [(k, v)]"
| "set_prop k v ((k', v') # kvs) =
     (if k = k' then (k, v) # kvs else (k', v') # set_prop k v kvs)"

text \<open>
  The own enumerable properties that a spread \<open>...v\<close> copies: those of an object, the
  indices of an array or of a string, none of any other value.
\<close>

fun own_props :: "jsval \<Rightarrow> (string \<times> jsval) list" where
  "own_props (JObj kvs) = kvs"
| "own_props (JArr vs) = map (\<lambda>i. (show_nat i, vs ! i)) [0..<length vs]"
| "own_props (JStr s) = map (\<lambda>i. (show_nat i, JStr [s ! i])) [0..<length s]"
| "own_props v = []"

definition spread :: "(string \<times> jsval) list \<Rightarrow> jsval \<Rightarrow> (string \<times> jsval) list" where
  "spread base v = fold (\<lambda>(k, x) acc. set_prop k x acc) (own_props v) base"

text \<open>The object \<open>{ success: false, error: e }\<close> that every \<open>catch\<close> block returns.\<close>

definition failure :: "string \<Rightarrow> jsval" where
  "failure e = JObj [(''success'', JBool False), (''error'', JStr e)]"

section \<open>The session coordinator (background.js)\<close>

text \<open>
  The three module variables, and the two things of the browser that the script alone
  sets: the badge of the action button and the offscreen document. A tab id is the
  integer \<open>tab.id\<close> the popup sends; a time is \<open>Date.now()\<close>, in milliseconds.
\<close>

record background =
  isRecording :: bool
  recordingTabId :: "int option"
  startTime :: "int option"
  badgeText :: string
  badgeBackgroundColor :: "string option"
  offscreenDocument :: bool

definition initial :: background where
  "initial = \<lparr> isRecording = False, recordingTabId = None, startTime = None,
               badgeText = [], badgeBackgroundColor = None, offscreenDocument = False \<rparr>"

datatype message =
    StartCapture string
  | StopCapture string
  | DownloadFallback string string

text \<open>
  What the browser answers during one operation: the clock, and for each awaited call
  either the error it rejects with or its value. \<open>sendMessage\<close> is the round trip to
  the offscreen document.
\<close>

record env =
  clock :: int
  getMediaStreamId :: "int \<Rightarrow> string thrown"
  getContexts_fault :: "string option"
  createDocument_fault :: "string option"
  closeDocument_fault :: "string option"
  sendMessage :: "message \<Rightarrow> jsval thrown"

record status =
  st_isRecording :: bool
  st_recordingTabId :: "int option"
  st_startTime :: "int option"
  elapsed :: int

text \<open>
  \<open>startTime ? Math.floor((Date.now() - startTime) / 1000) : 0\<close>: the guard is the
  truthiness of \<open>startTime\<close>, false on \<open>null\<close> and on the number 0. Both times are
  integers of milliseconds, far below \<open>2^53\<close>, where the rounded quotient has the floor
  of the exact one: the floor is \<open>div\<close> on \<open>int\<close>, which rounds down.
\<close>

definition getStatus :: "int \<Rightarrow> background \<Rightarrow> status" where
  "getStatus now s =
     \<lparr> st_isRecording = isRecording s,
       st_recordingTabId = recordingTabId s,
       st_startTime = startTime s,
       elapsed = (case startTime s of
                    None \<Rightarrow> 0
                  | Some t \<Rightarrow> if t \<noteq> 0 then (now - t) div 1000 else 0) \<rparr>"

text \<open>\<open>chrome.runtime.getContexts\<close>: the number of offscreen documents that exist.\<close>

definition getContexts :: "env \<Rightarrow> background \<Rightarrow> nat thrown" where
  "getContexts e s =
     (case getContexts_fault e of
        Some err \<Rightarrow> Inl err
      | None \<Rightarrow> Inr (if offscreenDocument s then 1 else 0))"

definition createOffscreenDocument :: "env \<Rightarrow> background \<Rightarrow> background thrown" where
  "createOffscreenDocument e s =
     (case getContexts e s of
        Inl err \<Rightarrow> Inl err
      | Inr existing \<Rightarrow>
          if existing > 0 then Inr s
          else (case createDocument_fault e of
                  Some err \<Rightarrow> Inl err
                | None \<Rightarrow> Inr (s\<lparr> offscreenDocument := True \<rparr>)))"

definition closeOffscreenDocument :: "env \<Rightarrow> background \<Rightarrow> background thrown" where
  "closeOffscreenDocument e s =
     (case getContexts e s of
        Inl err \<Rightarrow> Inl err
      | Inr existing \<Rightarrow>
          if existing > 0
          then (case closeDocument_fault e of
                  Some err \<Rightarrow> Inl err
                | None \<Rightarrow> Inr (s\<lparr> offscreenDocument := False \<rparr>))
          else Inr s)"

definition startRecording :: "int \<Rightarrow> env \<Rightarrow> background \<Rightarrow> jsval \<times> background" where
  "startRecording tabId e s =
     (if isRecording s then (failure ''Already recording'', s)
      else case getMediaStreamId e tabId of
        Inl err \<Rightarrow> (failure err, s)
      | Inr streamId \<Rightarrow>
          (case createOffscreenDocument e s of
             Inl err \<Rightarrow> (failure err, s)
           | Inr s1 \<Rightarrow>
               (case sendMessage e (StartCapture streamId) of
                  Inl err \<Rightarrow> (failure err, s1)
                | Inr response \<Rightarrow>
                    (case read_success response of
                       Inl err \<Rightarrow> (failure err, s1)
                     | Inr ok \<Rightarrow>
                         if truthy ok
                         then (response,
                               s1\<lparr> isRecording := True,
                                   recordingTabId := Some tabId,
                                   startTime := Some (clock e),
                                   badgeText := ''REC'',
                                   badgeBackgroundColor := Some ''#e74c3c'' \<rparr>)
                         else (response, s1)))))"

definition stopRecording :: "string \<Rightarrow> env \<Rightarrow> background \<Rightarrow> jsval \<times> background" where
  "stopRecording backendUrl e s =
     (if \<not> isRecording s then (failure ''Not recording'', s)
      else case sendMessage e (StopCapture backendUrl) of
        Inl err \<Rightarrow> (failure err, s)
      | Inr response \<Rightarrow>
          (let s1 = s\<lparr> isRecording := False, recordingTabId := None,
                      startTime := None, badgeText := [] \<rparr>
           in case closeOffscreenDocument e s1 of
                Inl err \<Rightarrow> (failure err, s1)
              | Inr s2 \<Rightarrow> (response, s2)))"

text \<open>
  The message listener: one request of the popup, answered in the state it finds. A
  message addressed to the offscreen document, or with another action, is not answered.
\<close>

datatype request =
    GetStatus
  | StartRecording int
  | StopRecording string
  | Unhandled

datatype reply = Status status | Result jsval | NoReply

fun onMessage :: "request \<Rightarrow> env \<Rightarrow> background \<Rightarrow> reply \<times> background" where
  "onMessage GetStatus e s = (Status (getStatus (clock e) s), s)"
| "onMessage (StartRecording tabId) e s =
     apfst Result (startRecording tabId e s)"
| "onMessage (StopRecording backendUrl) e s =
     apfst Result (stopRecording backendUrl e s)"
| "onMessage Unhandled e s = (NoReply, s)"

text \<open>The states the coordinator reaches: any requests, under any answers of the browser.\<close>

fun run :: "(request \<times> env) list \<Rightarrow> background \<Rightarrow> background" where
  "run [] s = s"
| "run ((q, e) # rest) s = run rest (snd (onMessage q e s))"

text \<open>
  The session invariant of the three module variables: the tab id and the start time are
  set exactly when a session is active.
\<close>

definition session_inv :: "background \<Rightarrow> bool" where
  "session_inv s =
     ((recordingTabId s \<noteq> None) = isRecording s \<and> (startTime s \<noteq> None) = isRecording s)"

section \<open>The capture worker (offscreen.js)\<close>

type_synonym byte = "8 word"

record blob =
  payload :: "byte list"
  mime :: string

definition blob_size :: "blob \<Rightarrow> nat" where
  "blob_size b = length (payload b)"

text \<open>A media stream is known by its tracks, a recorder by its stream and its state.\<close>

record stream =
  sourceId :: string
  tracks :: "nat list"

datatype recorder_state = Inactive | Recording | Paused

record recorder =
  rec_stream :: stream
  rec_state :: recorder_state

record worker =
  mediaRecorder :: "recorder option"
  recordedChunks :: "blob list"
  mediaStream :: "stream option"

definition fresh :: worker where
  "fresh = \<lparr> mediaRecorder = None, recordedChunks = [], mediaStream = None \<rparr>"

text \<open>The multipart request of the upload: each field has a name, a blob and a file name.\<close>

record http_request =
  req_url :: string
  req_method :: string
  req_fields :: "(string \<times> blob \<times> string) list"

text \<open>
  An HTTP response: its status, and what \<open>response.json()\<close> gives, a parse error or
  the value. \<open>response.ok\<close> is a status from 200 to 299.
\<close>

record http_response =
  resp_status :: nat
  resp_json :: "jsval thrown"

definition resp_ok :: "http_response \<Rightarrow> bool" where
  "resp_ok r = (200 \<le> resp_status r \<and> resp_status r \<le> 299)"

text \<open>What the worker does to the world, in the order it does it.\<close>

datatype effect =
    RecorderStop
  | TrackStop nat
  | Fetch http_request
  | CreateObjectURL blob
  | SendMessage message

record capture_env =
  getUserMedia :: "string \<Rightarrow> stream thrown"
  newMediaRecorder_fault :: "string option"
  start_fault :: "string option"

record upload_env =
  upload_clock :: int
  fetch :: "http_request \<Rightarrow> http_response thrown"
  fallback_clock :: int
  objectURL :: string
  fallback_reply :: "jsval thrown"

text \<open>
  \<open>mediaRecorder.ondataavailable\<close>: a chunk of size zero is dropped, any other is pushed
  at the end of the buffer.
\<close>

definition ondataavailable :: "blob \<Rightarrow> worker \<Rightarrow> worker" where
  "ondataavailable data w =
     (if blob_size data > 0 then w\<lparr> recordedChunks := recordedChunks w @ [data] \<rparr> else w)"

definition startCapture :: "string \<Rightarrow> capture_env \<Rightarrow> worker \<Rightarrow> jsval \<times> worker" where
  "startCapture streamId e w =
     (case getUserMedia e streamId of
        Inl err \<Rightarrow> (failure err, w)
      | Inr st \<Rightarrow>
          (let w1 = w\<lparr> mediaStream := Some st, recordedChunks := [] \<rparr>
           in case newMediaRecorder_fault e of
                Some err \<Rightarrow> (failure err, w1)
              | None \<Rightarrow>
                  (let w2 = w1\<lparr> mediaRecorder := Some \<lparr> rec_stream = st, rec_state = Inactive \<rparr> \<rparr>
                   in case start_fault e of
                        Some err \<Rightarrow> (failure err, w2)
                      | None \<Rightarrow>
                          (JObj [(''success'', JBool True)],
                           w2\<lparr> mediaRecorder :=
                                 Some \<lparr> rec_stream = st, rec_state = Recording \<rparr> \<rparr>))))"

text \<open>\<open>backendUrl.replace(/\/$/, '')\<close>: one slash at the very end is removed.\<close>

definition strip_slash :: "string \<Rightarrow> string" where
  "strip_slash u = (if u \<noteq> [] \<and> last u = CHR ''/'' then butlast u else u)"

definition upload_request :: "blob \<Rightarrow> string \<Rightarrow> int \<Rightarrow> http_request" where
  "upload_request b backendUrl now =
     \<lparr> req_url = strip_slash backendUrl @ ''/upload'',
       req_method = ''POST'',
       req_fields = [(''video'', b, ''recording_'' @ show_int now @ ''.webm'')] \<rparr>"

text \<open>
  The \<open>try\<close> block of \<open>uploadRecording\<close>: the request, the status check and the parse of
  the body; any of the three may throw.
\<close>

definition try_upload :: "http_request \<Rightarrow> upload_env \<Rightarrow> jsval thrown" where
  "try_upload req e =
     (case fetch e req of
        Inl err \<Rightarrow> Inl err
      | Inr response \<Rightarrow>
          if \<not> resp_ok response
          then Inl (''Upload failed: '' @ show_nat (resp_status response))
          else resp_json response)"

definition uploadRecording :: "blob \<Rightarrow> string \<Rightarrow> upload_env \<Rightarrow> jsval \<times> effect list" where
  "uploadRecording b backendUrl e =
     (let req = upload_request b backendUrl (upload_clock e)
      in case try_upload req e of
           Inr result \<Rightarrow>
             (JObj (spread [(''success'', JBool True)] result), [Fetch req])
         | Inl err \<Rightarrow>
             (JObj [(''success'', JBool False), (''error'', JStr err),
                    (''savedLocally'', JBool True)],
              [Fetch req,
               CreateObjectURL b,
               SendMessage (DownloadFallback (objectURL e)
                 (''linkedin_recording_'' @ show_int (fallback_clock e) @ ''.webm''))]))"

text \<open>\<open>new Blob(recordedChunks, { type: 'video/webm' })\<close>.\<close>

definition new_Blob :: "blob list \<Rightarrow> string \<Rightarrow> blob" where
  "new_Blob parts ty = \<lparr> payload = concat (map payload parts), mime = ty \<rparr>"

text \<open>The \<open>onstop\<close> handler of \<open>stopCapture\<close>.\<close>

definition onstop :: "string \<Rightarrow> upload_env \<Rightarrow> worker \<Rightarrow> jsval \<times> effect list" where
  "onstop backendUrl e w =
     (let stopped = (case mediaStream w of
                       None \<Rightarrow> []
                     | Some st \<Rightarrow> map TrackStop (tracks st));
          b = new_Blob (recordedChunks w) ''video/webm''
      in case uploadRecording b backendUrl e of
           (result, effects) \<Rightarrow> (result, stopped @ effects))"

text \<open>
  \<open>stopCapture\<close>: \<open>mediaRecorder.stop()\<close> makes the recorder inactive, hands the data
  gathered since the last chunk to \<open>ondataavailable\<close>, and then runs \<open>onstop\<close>.
\<close>

definition stopCapture ::
  "string \<Rightarrow> blob \<Rightarrow> upload_env \<Rightarrow> worker \<Rightarrow> jsval \<times> effect list \<times> worker" where
  "stopCapture backendUrl flushed e w =
     (case mediaRecorder w of
        None \<Rightarrow> (failure ''No active recording'', [], w)
      | Some r \<Rightarrow>
          if rec_state r = Inactive then (failure ''No active recording'', [], w)
          else (let w1 = ondataavailable flushed
                           (w\<lparr> mediaRecorder := Some (r\<lparr> rec_state := Inactive \<rparr>) \<rparr>)
                in case onstop backendUrl e w1 of
                     (result, effects) \<Rightarrow> (result, RecorderStop # effects, w1)))"

text \<open>The events of the worker's life, and the states they lead to.\<close>

datatype worker_event =
    Start string capture_env
  | Data blob
  | Stop string blob upload_env

fun worker_step :: "worker_event \<Rightarrow> worker \<Rightarrow> worker" where
  "worker_step (Start streamId e) w = snd (startCapture streamId e w)"
| "worker_step (Data b) w = ondataavailable b w"
| "worker_step (Stop backendUrl flushed e) w = snd (snd (stopCapture backendUrl flushed e w))"

definition worker_run :: "worker_event list \<Rightarrow> worker \<Rightarrow> worker" where
  "worker_run evs w = fold worker_step evs w"

section \<open>Reading a result, and sample inputs\<close>

text \<open>The test \<open>if (response.success)\<close> that the popup and \<open>startRecording\<close> make.\<close>

definition succeeded :: "jsval \<Rightarrow> bool" where
  "succeeded r = (case read_success r of Inl err \<Rightarrow> False | Inr v \<Rightarrow> truthy v)"

text \<open>Whether two states hold the same session and show the same badge.\<close>

definition same_session :: "background \<Rightarrow> background \<Rightarrow> bool" where
  "same_session s s' =
     (isRecording s' = isRecording s \<and> recordingTabId s' = recordingTabId s \<and>
      startTime s' = startTime s \<and> badgeText s' = badgeText s \<and>
      badgeBackgroundColor s' = badgeBackgroundColor s)"

text \<open>
  A browser in which every call succeeds and the offscreen document answers \<open>r\<close>, and
  one in which the message cannot be delivered.
\<close>

definition answering :: "jsval \<Rightarrow> int \<Rightarrow> env" where
  "answering r now =
     \<lparr> clock = now,
       getMediaStreamId = (\<lambda>tabId. Inr ''stream-1''),
       getContexts_fault = None,
       createDocument_fault = None,
       closeDocument_fault = None,
       sendMessage = (\<lambda>m. Inr r) \<rparr>"

definition unreachable :: "int \<Rightarrow> env" where
  "unreachable now =
     \<lparr> clock = now,
       getMediaStreamId = (\<lambda>tabId. Inr ''stream-1''),
       getContexts_fault = None,
       createDocument_fault = None,
       closeDocument_fault = None,
       sendMessage =
         (\<lambda>m. Inl ''Could not establish connection. Receiving end does not exist.'') \<rparr>"

text \<open>A browser that refuses to hand out a stream id for the tab.\<close>

definition refusing :: "int \<Rightarrow> env" where
  "refusing now =
     \<lparr> clock = now,
       getMediaStreamId =
         (\<lambda>tabId. Inl ''Extension has not been invoked for the current page''),
       getContexts_fault = None,
       createDocument_fault = None,
       closeDocument_fault = None,
       sendMessage = (\<lambda>m. Inr JUndefined) \<rparr>"

definition recording_since :: "int \<Rightarrow> int \<Rightarrow> background" where
  "recording_since tabId t =
     \<lparr> isRecording = True, recordingTabId = Some tabId, startTime = Some t,
       badgeText = ''REC'', badgeBackgroundColor = Some ''#e74c3c'',
       offscreenDocument = True \<rparr>"

definition started :: jsval where
  "started = JObj [(''success'', JBool True)]"

text \<open>A capture device that refuses the stream.\<close>

definition denied :: capture_env where
  "denied =
     \<lparr> getUserMedia = (\<lambda>streamId. Inl ''Permission denied''),
       newMediaRecorder_fault = None,
       start_fault = None \<rparr>"

definition saved_locally :: jsval where
  "saved_locally =
     JObj [(''success'', JBool False), (''error'', JStr ''Upload failed: 500''),
           (''savedLocally'', JBool True)]"

text \<open>A capture device that grants the stream, with its one video track.\<close>

definition granted :: capture_env where
  "granted =
     \<lparr> getUserMedia = (\<lambda>streamId. Inr \<lparr> sourceId = streamId, tracks = [0] \<rparr>),
       newMediaRecorder_fault = None,
       start_fault = None \<rparr>"

definition clip :: blob where
  "clip = \<lparr> payload = [26, 69, 223, 163], mime = ''video/webm;codecs=vp9'' \<rparr>"

definition empty_chunk :: blob where
  "empty_chunk = \<lparr> payload = [], mime = ''video/webm;codecs=vp9'' \<rparr>"

text \<open>A backend that stores the upload, and one that answers 500.\<close>

definition accepting :: upload_env where
  "accepting =
     \<lparr> upload_clock = 1700000000000,
       fetch = (\<lambda>req. Inr \<lparr> resp_status = 200,
                             resp_json = Inr (JObj [(''filename'', JStr ''rec.webm'')]) \<rparr>),
       fallback_clock = 1700000000250,
       objectURL = ''blob:chrome-extension://feedfilter/1'',
       fallback_reply = Inr JUndefined \<rparr>"

definition rejecting :: upload_env where
  "rejecting =
     \<lparr> upload_clock = 1700000000000,
       fetch = (\<lambda>req. Inr \<lparr> resp_status = 500, resp_json = Inl ''Unexpected token'' \<rparr>),
       fallback_clock = 1700000000250,
       objectURL = ''blob:chrome-extension://feedfilter/1'',
       fallback_reply = Inr JUndefined \<rparr>"

text \<open>The worker in the middle of a capture, two chunks in its buffer.\<close>

definition capturing :: worker where
  "capturing =
     \<lparr> mediaRecorder = Some \<lparr> rec_stream = \<lparr> sourceId = ''stream-1'', tracks = [0] \<rparr>,
                               rec_state = Recording \<rparr>,
       recordedChunks = [clip, clip],
       mediaStream = Some \<lparr> sourceId = ''stream-1'', tracks = [0] \<rparr> \<rparr>"

section \<open>The worker's invariant\<close>

text \<open>
  Whenever a recorder exists a stream does, and no chunk in the buffer is empty.
\<close>

definition worker_inv :: "worker \<Rightarrow> bool" where
  "worker_inv w =
     ((mediaRecorder w \<noteq> None \<longrightarrow> mediaStream w \<noteq> None) \<and>
      (\<forall>c \<in> set (recordedChunks w). blob_size c > 0))"

section \<open>The coordinator's session\<close>

subsection \<open>Creating and closing the offscreen document leaves the session alone\<close>

lemma closeOffscreenDocument_session:
  "closeOffscreenDocument e s = Inr s' \<Longrightarrow> same_session s s'"
  by (auto simp: closeOffscreenDocument_def getContexts_def same_session_def
           split: option.splits sum.splits if_splits)

lemma createOffscreenDocument_session:
  "createOffscreenDocument e s = Inr s' \<Longrightarrow> same_session s s'"
  by (auto simp: createOffscreenDocument_def getContexts_def same_session_def
           split: option.splits sum.splits if_splits)

subsection \<open>The invariant\<close>

lemma startRecording_inv: "session_inv s \<Longrightarrow> session_inv (snd (startRecording tabId e s))"
  by (auto simp: startRecording_def session_inv_def same_session_def
           dest!: createOffscreenDocument_session split: sum.splits)

lemma stopRecording_inv: "session_inv s \<Longrightarrow> session_inv (snd (stopRecording u e s))"
  by (auto simp: stopRecording_def session_inv_def same_session_def Let_def
           dest!: closeOffscreenDocument_session split: sum.splits)

lemma onMessage_inv: "session_inv s \<Longrightarrow> session_inv (snd (onMessage q e s))"
  by (cases q) (simp_all add: startRecording_inv stopRecording_inv)

lemma initial_inv: "session_inv initial"
  by (simp add: session_inv_def initial_def)

lemma run_inv: "session_inv s \<Longrightarrow> session_inv (run ops s)"
proof (induction ops arbitrary: s)
  case Nil
  then show ?case by simp
next
  case (Cons a ops)
  obtain q e where a: "a = (q, e)" by (cases a)
  from Cons.prems have "session_inv (snd (onMessage q e s))" by (rule onMessage_inv)
  then show ?case using Cons.IH a by simp
qed

text \<open>
  C8. In the initial state and in every state reached by any requests under any answers
  of the browser, \<open>recordingTabId\<close> and \<open>startTime\<close> are non-null exactly when
  \<open>isRecording\<close> is true; every request preserves this; and the one session slot is
  never taken over: a \<open>startRecording\<close> that finds a session active changes nothing.
\<close>

theorem session_invariant:
  "session_inv initial \<and>
   session_inv (run ops initial) \<and>
   (session_inv s \<longrightarrow> session_inv (snd (onMessage q e s))) \<and>
   (isRecording s \<longrightarrow> snd (onMessage (StartRecording tabId) e s) = s)"
  using initial_inv run_inv [OF initial_inv] onMessage_inv
  by (simp add: startRecording_def)

theorem session_invariant_witness:
  "session_inv (recording_since 7 1000) \<and>
   isRecording (recording_since 7 1000) \<and>
   session_inv (snd (onMessage (StopRecording ''http://localhost:8000'')
                       (answering saved_locally 6000) (recording_since 7 1000))) \<and>
   snd (onMessage (StartRecording 8) (answering saved_locally 6000) (recording_since 7 1000))
     = recording_since 7 1000"
  using session_invariant [of "[]" "recording_since 7 1000"
          "StopRecording ''http://localhost:8000''" "answering saved_locally 6000" 8]
  by (simp add: session_inv_def recording_since_def startRecording_def)

subsection \<open>Starting while a session is active\<close>

text \<open>
  C2. When \<open>isRecording\<close> is true, \<open>startRecording\<close> returns
  \<open>{ success: false, error: 'Already recording' }\<close> and leaves the whole state, with
  \<open>isRecording\<close>, \<open>recordingTabId\<close> and \<open>startTime\<close>, as it was.
\<close>

theorem startRecording_already_active:
  assumes "isRecording s"
  shows "startRecording tabId e s = (failure ''Already recording'', s)"
  using assms by (simp add: startRecording_def)

theorem startRecording_already_active_witness:
  "isRecording (recording_since 7 1000) \<and>
   startRecording 8 (answering (JObj [(''success'', JBool True)]) 6000) (recording_since 7 1000)
     = (JObj [(''success'', JBool False), (''error'', JStr ''Already recording'')],
        recording_since 7 1000)"
  using startRecording_already_active [of "recording_since 7 1000" 8
          "answering (JObj [(''success'', JBool True)]) 6000"]
  by (simp add: recording_since_def failure_def)

subsection \<open>Stopping\<close>

text \<open>
  C1, as stated, at a message that cannot be delivered: the call passes the
  active-session check and reaches the delegation, \<open>sendMessage\<close> rejects, the \<open>catch\<close>
  block returns the error, and the session, the badge and the offscreen document are
  all as before.
\<close>

theorem stopRecording_undelivered_counterexample:
  "isRecording (recording_since 7 1000) \<and>
   stopRecording ''http://localhost:8000'' (unreachable 6000) (recording_since 7 1000)
     = (failure ''Could not establish connection. Receiving end does not exist.'',
        recording_since 7 1000)"
  by (simp add: stopRecording_def unreachable_def recording_since_def)

text \<open>
  C1, amended. When the call passes the active-session check and the delegated stop
  command comes back with a response of the worker, whatever that response is, then
  \<open>isRecording\<close>, \<open>recordingTabId\<close> and \<open>startTime\<close> are cleared and the badge text is
  empty when the call returns; and when neither call of the teardown throws, the
  offscreen document is gone and the worker's response is returned as it came.
\<close>

theorem stopRecording_cleanup:
  assumes "isRecording s"
    and "sendMessage e (StopCapture backendUrl) = Inr response"
  shows "\<not> isRecording (snd (stopRecording backendUrl e s)) \<and>
         recordingTabId (snd (stopRecording backendUrl e s)) = None \<and>
         startTime (snd (stopRecording backendUrl e s)) = None \<and>
         badgeText (snd (stopRecording backendUrl e s)) = [] \<and>
         (getContexts_fault e = None \<and> closeDocument_fault e = None \<longrightarrow>
            \<not> offscreenDocument (snd (stopRecording backendUrl e s)) \<and>
            fst (stopRecording backendUrl e s) = response)"
  using assms
  by (auto simp: stopRecording_def Let_def closeOffscreenDocument_def getContexts_def
           split: sum.splits option.splits if_splits)

theorem stopRecording_cleanup_witness:
  "isRecording (recording_since 7 1000) \<and>
   sendMessage (answering saved_locally 6000) (StopCapture ''http://localhost:8000'')
     = Inr saved_locally \<and>
   stopRecording ''http://localhost:8000'' (answering saved_locally 6000) (recording_since 7 1000)
     = (saved_locally,
        \<lparr> isRecording = False, recordingTabId = None, startTime = None,
          badgeText = [], badgeBackgroundColor = Some ''#e74c3c'',
          offscreenDocument = False \<rparr>)"
  using stopRecording_cleanup [of "recording_since 7 1000" "answering saved_locally 6000"
          "''http://localhost:8000''" saved_locally]
  by (simp add: stopRecording_def answering_def recording_since_def
        closeOffscreenDocument_def getContexts_def)

subsection \<open>Status queries\<close>

lemma elapsed_mono:
  "now \<le> now' \<Longrightarrow> elapsed (getStatus now s) \<le> elapsed (getStatus now' s)"
  by (auto simp: getStatus_def zdiv_mono1 split: option.splits)

lemma onMessage_startTime_nonzero:
  assumes "clock e \<noteq> 0" and "startTime s \<noteq> Some 0"
  shows "startTime (snd (onMessage q e s)) \<noteq> Some 0"
proof (cases q)
  case (StartRecording tabId)
  have "startTime (snd (startRecording tabId e s)) \<noteq> Some 0"
    using assms
    by (auto simp: startRecording_def same_session_def
             dest!: createOffscreenDocument_session split: sum.splits)
  with StartRecording show ?thesis by simp
next
  case (StopRecording u)
  have "startTime (snd (stopRecording u e s)) \<noteq> Some 0"
    using assms
    by (auto simp: stopRecording_def Let_def same_session_def
             dest!: closeOffscreenDocument_session split: sum.splits)
  with StopRecording show ?thesis by simp
qed (use assms in simp_all)

lemma run_startTime_nonzero:
  "\<forall>(q, e) \<in> set ops. clock e \<noteq> 0 \<Longrightarrow> startTime s \<noteq> Some 0 \<Longrightarrow>
   startTime (run ops s) \<noteq> Some 0"
proof (induction ops arbitrary: s)
  case Nil
  then show ?case by simp
next
  case (Cons a ops)
  obtain q e where a: "a = (q, e)" by (cases a)
  from Cons.prems a have "clock e \<noteq> 0" by simp
  then have "startTime (snd (onMessage q e s)) \<noteq> Some 0"
    using Cons.prems(2) by (rule onMessage_startTime_nonzero)
  moreover from Cons.prems(1) have "\<forall>(q, e) \<in> set ops. clock e \<noteq> 0" by simp
  ultimately show ?case using Cons.IH a by simp
qed

lemma startRecording_success_startTime:
  assumes "\<not> isRecording s" and "succeeded (fst (startRecording tabId e s))"
  shows "startTime (snd (startRecording tabId e s)) = Some (clock e)"
  using assms
  by (auto simp: startRecording_def succeeded_def failure_def split: sum.splits)

text \<open>
  C3. \<open>getStatus\<close> answers in every state and changes nothing. The guard
  \<open>startTime ? ... : 0\<close> reads a start time of 0 as absent; \<open>Date.now()\<close> counts the
  milliseconds since 1970 and does not read 0 in a running browser, which the second
  hypothesis says of the requests that led to the state. Then, with no session active
  the elapsed time is 0; with a session active it is the floor of
  \<open>(now - startTime) / 1000\<close>, a whole number of seconds; a later query never reports
  less than an earlier one; and \<open>k\<close> milliseconds after a successful start the elapsed
  time is the floor of \<open>k / 1000\<close>.
\<close>

theorem getStatus_elapsed:
  assumes "s = run ops initial"
    and "\<forall>(q, e) \<in> set ops. clock e \<noteq> 0"
  shows "onMessage GetStatus e s = (Status (getStatus (clock e) s), s) \<and>
         (\<not> isRecording s \<longrightarrow> elapsed (getStatus now s) = 0) \<and>
         (isRecording s \<longrightarrow>
            (\<exists>t. startTime s = Some t \<and> elapsed (getStatus now s) = (now - t) div 1000)) \<and>
         (now \<le> now' \<longrightarrow> elapsed (getStatus now s) \<le> elapsed (getStatus now' s)) \<and>
         (\<not> isRecording s \<and> clock e \<noteq> 0 \<and> succeeded (fst (startRecording tabId e s)) \<longrightarrow>
            elapsed (getStatus (clock e + k) (snd (startRecording tabId e s))) = k div 1000)"
proof -
  have inv: "session_inv s" using assms(1) run_inv [OF initial_inv] by simp
  have nz: "startTime s \<noteq> Some 0"
    using assms run_startTime_nonzero [of ops initial] by (simp add: initial_def)
  from inv have idle: "\<not> isRecording s \<longrightarrow> elapsed (getStatus now s) = 0"
    by (auto simp: session_inv_def getStatus_def)
  have rec: "isRecording s \<longrightarrow>
            (\<exists>t. startTime s = Some t \<and> elapsed (getStatus now s) = (now - t) div 1000)"
    using inv nz by (auto simp: session_inv_def getStatus_def)
  have after: "elapsed (getStatus (clock e + k) (snd (startRecording tabId e s))) = k div 1000"
    if "\<not> isRecording s" "clock e \<noteq> 0" "succeeded (fst (startRecording tabId e s))"
    using startRecording_success_startTime [OF that(1,3)] that(2)
    by (simp add: getStatus_def)
  show ?thesis using idle rec after elapsed_mono by simp
qed

theorem getStatus_elapsed_witness:
  "run [(StartRecording 7, answering started 1000)] initial
     = recording_since 7 1000 \<and>
   clock (answering started 1000) \<noteq> 0 \<and>
   isRecording (recording_since 7 1000) \<and>
   startTime (recording_since 7 1000) = Some 1000 \<and>
   elapsed (getStatus 6500 (recording_since 7 1000)) = 5 \<and>
   elapsed (getStatus 9000 (recording_since 7 1000)) = 8 \<and>
   \<not> isRecording (run [] initial) \<and>
   elapsed (getStatus 6500 (run [] initial)) = 0 \<and>
   succeeded (fst (startRecording 7 (answering started 1000) (run [] initial))) \<and>
   elapsed (getStatus (1000 + 5999)
              (snd (startRecording 7 (answering started 1000) (run [] initial)))) = 5"
  using getStatus_elapsed [of "recording_since 7 1000"
          "[(StartRecording 7, answering started 1000)]" "answering started 6500" 6500 9000 7 0]
        getStatus_elapsed [of "run [] initial" "[]" "answering started 1000" 6500 9000 7 5999]
  by (simp add: startRecording_def answering_def started_def initial_def recording_since_def
        createOffscreenDocument_def getContexts_def getStatus_def succeeded_def)

subsection \<open>A start that fails\<close>

lemma startCapture_result:
  "fst (startCapture streamId ce w) = JObj [(''success'', JBool True)] \<or>
   (\<exists>err. fst (startCapture streamId ce w) = failure err)"
  by (auto simp: startCapture_def Let_def split: sum.splits option.splits)

lemma startCapture_failure:
  "fst (startCapture streamId ce w) \<noteq> JObj [(''success'', JBool True)] \<Longrightarrow>
   \<exists>err. fst (startCapture streamId ce w) = failure err"
  using startCapture_result [of streamId ce w] by blast

text \<open>
  C4. Called with no session active, \<open>startRecording\<close> fails in these ways, and in each
  the session and the badge stay as they were. When the stream id cannot be acquired, or
  making the offscreen document throws, the result is \<open>{ success: false, error }\<close> with
  the thrown message and the state is untouched. When the document step passes, it
  leaves the session alone, and then: a message that cannot be sent, or an answer that
  is \<open>undefined\<close> or \<open>null\<close>, gives \<open>{ success: false, error }\<close> with the thrown message;
  an answer whose \<open>success\<close> is not truthy is returned as it came, so the worker's
  \<open>{ success: false, error }\<close> comes back unchanged; and every answer of the worker's
  \<open>startCapture\<close> other than its success is such a failure object.
\<close>

theorem startRecording_failure_idle:
  assumes "\<not> isRecording s"
  shows "(getMediaStreamId e tabId = Inl err \<longrightarrow>
            startRecording tabId e s = (failure err, s)) \<and>
         (getMediaStreamId e tabId = Inr streamId \<and> createOffscreenDocument e s = Inl err \<longrightarrow>
            startRecording tabId e s = (failure err, s)) \<and>
         (getMediaStreamId e tabId = Inr streamId \<and> createOffscreenDocument e s = Inr s1 \<longrightarrow>
            same_session s s1 \<and>
            (sendMessage e (StartCapture streamId) = Inl err \<longrightarrow>
               startRecording tabId e s = (failure err, s1)) \<and>
            (sendMessage e (StartCapture streamId) = Inr response \<and>
             read_success response = Inl err \<longrightarrow>
               startRecording tabId e s = (failure err, s1)) \<and>
            (sendMessage e (StartCapture streamId) = Inr response \<and>
             read_success response = Inr v \<and> \<not> truthy v \<longrightarrow>
               startRecording tabId e s = (response, s1)) \<and>
            (sendMessage e (StartCapture streamId) = Inr (failure err) \<longrightarrow>
               startRecording tabId e s = (failure err, s1)) \<and>
            (sendMessage e (StartCapture streamId) = Inr (fst (startCapture streamId ce w)) \<and>
             fst (startCapture streamId ce w) \<noteq> JObj [(''success'', JBool True)] \<longrightarrow>
               (\<exists>err'. startRecording tabId e s = (failure err', s1))))"
proof -
  have thrown1: "getMediaStreamId e tabId = Inl err \<longrightarrow>
            startRecording tabId e s = (failure err, s)"
    using assms by (simp add: startRecording_def)
  have thrown2: "getMediaStreamId e tabId = Inr streamId \<and>
                 createOffscreenDocument e s = Inl err \<longrightarrow>
            startRecording tabId e s = (failure err, s)"
    using assms by (simp add: startRecording_def)
  have rest: "same_session s s1 \<and>
            (sendMessage e (StartCapture streamId) = Inl err \<longrightarrow>
               startRecording tabId e s = (failure err, s1)) \<and>
            (sendMessage e (StartCapture streamId) = Inr response \<and>
             read_success response = Inl err \<longrightarrow>
               startRecording tabId e s = (failure err, s1)) \<and>
            (sendMessage e (StartCapture streamId) = Inr response \<and>
             read_success response = Inr v \<and> \<not> truthy v \<longrightarrow>
               startRecording tabId e s = (response, s1)) \<and>
            (sendMessage e (StartCapture streamId) = Inr (failure err) \<longrightarrow>
               startRecording tabId e s = (failure err, s1)) \<and>
            (sendMessage e (StartCapture streamId) = Inr (fst (startCapture streamId ce w)) \<and>
             fst (startCapture streamId ce w) \<noteq> JObj [(''success'', JBool True)] \<longrightarrow>
               (\<exists>err'. startRecording tabId e s = (failure err', s1)))"
    if sid: "getMediaStreamId e tabId = Inr streamId"
      and doc: "createOffscreenDocument e s = Inr s1"
  proof -
    have same: "same_session s s1" using doc by (rule createOffscreenDocument_session)
    have sent: "sendMessage e (StartCapture streamId) = Inl err \<longrightarrow>
               startRecording tabId e s = (failure err, s1)"
      using assms sid doc by (simp add: startRecording_def)
    have nullish: "sendMessage e (StartCapture streamId) = Inr response \<and>
             read_success response = Inl err \<longrightarrow>
               startRecording tabId e s = (failure err, s1)"
      using assms sid doc by (simp add: startRecording_def)
    have falsy: "startRecording tabId e s = (r, s1)"
      if "sendMessage e (StartCapture streamId) = Inr r" "read_success r = Inr x" "\<not> truthy x"
      for r x
      using assms sid doc that by (simp add: startRecording_def)
    have failed: "sendMessage e (StartCapture streamId) = Inr (failure err) \<longrightarrow>
               startRecording tabId e s = (failure err, s1)"
      using falsy [of "failure err" "JBool False"] by (simp add: failure_def)
    have worker: "\<exists>err'. startRecording tabId e s = (failure err', s1)"
      if got: "sendMessage e (StartCapture streamId) = Inr (fst (startCapture streamId ce w))"
        and no: "fst (startCapture streamId ce w) \<noteq> JObj [(''success'', JBool True)]"
    proof -
      from startCapture_failure [OF no] obtain err' where
        f: "fst (startCapture streamId ce w) = failure err'" by blast
      from falsy [of "failure err'" "JBool False"] got f
      have "startRecording tabId e s = (failure err', s1)" by (simp add: failure_def)
      then show ?thesis by blast
    qed
    show ?thesis using same sent nullish falsy failed worker by blast
  qed
  show ?thesis using thrown1 thrown2 rest by blast
qed

theorem startRecording_failure_idle_witness:
  "\<not> isRecording initial \<and>
   getMediaStreamId (refusing 1000) 7 = Inl ''Extension has not been invoked for the current page'' \<and>
   startRecording 7 (refusing 1000) initial
     = (JObj [(''success'', JBool False),
              (''error'', JStr ''Extension has not been invoked for the current page'')],
        initial) \<and>
   getMediaStreamId (unreachable 1000) 7 = Inr ''stream-1'' \<and>
   createOffscreenDocument (unreachable 1000) initial
     = Inr (initial\<lparr> offscreenDocument := True \<rparr>) \<and>
   sendMessage (unreachable 1000) (StartCapture ''stream-1'')
     = Inl ''Could not establish connection. Receiving end does not exist.'' \<and>
   startRecording 7 (unreachable 1000) initial
     = (JObj [(''success'', JBool False),
              (''error'', JStr ''Could not establish connection. Receiving end does not exist.'')],
        initial\<lparr> offscreenDocument := True \<rparr>) \<and>
   sendMessage (answering (fst (startCapture ''stream-1'' denied fresh)) 1000)
       (StartCapture ''stream-1'')
     = Inr (fst (startCapture ''stream-1'' denied fresh)) \<and>
   fst (startCapture ''stream-1'' denied fresh) \<noteq> JObj [(''success'', JBool True)] \<and>
   startRecording 7 (answering (fst (startCapture ''stream-1'' denied fresh)) 1000) initial
     = (JObj [(''success'', JBool False), (''error'', JStr ''Permission denied'')],
        initial\<lparr> offscreenDocument := True \<rparr>)"
  using startRecording_failure_idle [of initial "refusing 1000" 7
          "''Extension has not been invoked for the current page''"]
        startRecording_failure_idle [of initial "unreachable 1000" 7
          "''Could not establish connection. Receiving end does not exist.''" "''stream-1''"
          "initial\<lparr> offscreenDocument := True \<rparr>"]
        startRecording_failure_idle [of initial
          "answering (fst (startCapture ''stream-1'' denied fresh)) 1000" 7
          "''Permission denied''" "''stream-1''" "initial\<lparr> offscreenDocument := True \<rparr>"
          JUndefined JUndefined denied fresh]
  by (simp add: startRecording_def answering_def unreachable_def refusing_def initial_def
        failure_def startCapture_def denied_def createOffscreenDocument_def getContexts_def)

section \<open>The upload\<close>

subsection \<open>Spreading an object over another\<close>

lemma map_of_set_prop:
  "map_of (set_prop k v kvs) k' = (if k' = k then Some v else map_of kvs k')"
  by (induction kvs) auto

lemma map_of_fold_set_prop:
  "distinct (map fst ps) \<Longrightarrow>
   map_of (fold (\<lambda>(k, x) acc. set_prop k x acc) ps base) k' =
     (case map_of ps k' of Some v \<Rightarrow> Some v | None \<Rightarrow> map_of base k')"
proof (induction ps arbitrary: base)
  case Nil
  then show ?case by simp
next
  case (Cons p ps)
  obtain k x where p: "p = (k, x)" by (cases p)
  from Cons.prems p have fresh_key: "map_of ps k = None" and rest: "distinct (map fst ps)"
    by (auto simp: map_of_eq_None_iff)
  show ?case
    using fresh_key by (simp add: p Cons.IH [OF rest] map_of_set_prop split: option.splits)
qed

lemma spread_lookup:
  assumes "distinct (map fst kvs)"
  shows "map_of (spread base (JObj kvs)) k =
           (case map_of kvs k of Some v \<Rightarrow> Some v | None \<Rightarrow> map_of base k)"
  using assms by (simp add: spread_def map_of_fold_set_prop)

subsection \<open>A successful upload\<close>

lemma strip_slash_snoc: "strip_slash (u @ ''/'') = u"
  by (simp add: strip_slash_def)

text \<open>
  C9. When the request is answered with a success status and a JSON body, the upload is
  one POST to the destination, without one trailing slash, followed by \<open>/upload\<close>, with
  the single field \<open>video\<close> that carries the artifact under the file name
  \<open>recording_\<close>, the clock's reading, \<open>.webm\<close>; nothing else is done; and the result is
  \<open>{ success: true }\<close> with the properties of the body written over it: each key of the
  body has the body's value, and \<open>success\<close> is true unless the body has that key itself.
\<close>

theorem uploadRecording_success:
  assumes "fetch e (upload_request b backendUrl (upload_clock e)) = Inr response"
    and "resp_ok response"
    and "resp_json response = Inr result"
  shows "uploadRecording b backendUrl e =
           (JObj (spread [(''success'', JBool True)] result),
            [Fetch \<lparr> req_url = strip_slash backendUrl @ ''/upload'',
                     req_method = ''POST'',
                     req_fields = [(''video'', b,
                        ''recording_'' @ show_int (upload_clock e) @ ''.webm'')] \<rparr>]) \<and>
         strip_slash (u @ ''/'') = u \<and>
         (u = [] \<or> last u \<noteq> CHR ''/'' \<longrightarrow> strip_slash u = u) \<and>
         (\<forall>kvs k. result = JObj kvs \<and> distinct (map fst kvs) \<longrightarrow>
            map_of (spread [(''success'', JBool True)] result) k =
              (case map_of kvs k of
                 Some v \<Rightarrow> Some v
               | None \<Rightarrow> if k = ''success'' then Some (JBool True) else None))"
proof -
  have run: "uploadRecording b backendUrl e =
           (JObj (spread [(''success'', JBool True)] result),
            [Fetch (upload_request b backendUrl (upload_clock e))])"
    using assms by (simp add: uploadRecording_def try_upload_def Let_def)
  have strip: "u = [] \<or> last u \<noteq> CHR ''/'' \<longrightarrow> strip_slash u = u"
    by (auto simp: strip_slash_def)
  have merge: "map_of (spread [(''success'', JBool True)] (JObj kvs)) k =
              (case map_of kvs k of
                 Some v \<Rightarrow> Some v
               | None \<Rightarrow> if k = ''success'' then Some (JBool True) else None)"
    if "distinct (map fst kvs)" for kvs k
    using spread_lookup [OF that, of "[(''success'', JBool True)]" k]
    by (simp split: option.splits)
  show ?thesis
    using run strip merge strip_slash_snoc by (simp add: upload_request_def)
qed

theorem uploadRecording_success_witness:
  "fetch accepting (upload_request clip ''http://localhost:8000/'' (upload_clock accepting))
     = Inr \<lparr> resp_status = 200,
             resp_json = Inr (JObj [(''filename'', JStr ''rec.webm'')]) \<rparr> \<and>
   resp_ok \<lparr> resp_status = 200,
             resp_json = Inr (JObj [(''filename'', JStr ''rec.webm'')]) \<rparr> \<and>
   uploadRecording clip ''http://localhost:8000/'' accepting =
     (JObj [(''success'', JBool True), (''filename'', JStr ''rec.webm'')],
      [Fetch \<lparr> req_url = ''http://localhost:8000/upload'',
               req_method = ''POST'',
               req_fields = [(''video'', clip, ''recording_1700000000000.webm'')] \<rparr>])"
  using uploadRecording_success [of accepting clip "''http://localhost:8000/''"
          "\<lparr> resp_status = 200, resp_json = Inr (JObj [(''filename'', JStr ''rec.webm'')]) \<rparr>"
          "JObj [(''filename'', JStr ''rec.webm'')]" "''http://localhost:8000''"]
  by (simp add: accepting_def resp_ok_def spread_def strip_slash_def
        show_int_def show_nat.simps digit_char_def)

subsection \<open>A failed upload\<close>

text \<open>
  C5. When the upload fails, by a rejected request, a status outside 200 to 299, or a
  body that does not parse, \<open>uploadRecording\<close> makes an object URL of the artifact, sends
  the \<open>downloadFallback\<close> message with that URL and the file name \<open>linkedin_recording_\<close>,
  the clock's reading, \<open>.webm\<close>, and returns
  \<open>{ success: false, error, savedLocally: true }\<close>. The message is not awaited: whatever
  its promise settles to, the run is the same.
\<close>

theorem uploadRecording_fallback:
  assumes "fetch e (upload_request b backendUrl (upload_clock e)) = Inl err \<or>
           (\<exists>response. fetch e (upload_request b backendUrl (upload_clock e)) = Inr response \<and>
              \<not> resp_ok response \<and>
              err = ''Upload failed: '' @ show_nat (resp_status response)) \<or>
           (\<exists>response. fetch e (upload_request b backendUrl (upload_clock e)) = Inr response \<and>
              resp_ok response \<and> resp_json response = Inl err)"
  shows "uploadRecording b backendUrl e =
           (JObj [(''success'', JBool False), (''error'', JStr err),
                  (''savedLocally'', JBool True)],
            [Fetch (upload_request b backendUrl (upload_clock e)),
             CreateObjectURL b,
             SendMessage (DownloadFallback (objectURL e)
               (''linkedin_recording_'' @ show_int (fallback_clock e) @ ''.webm''))]) \<and>
         uploadRecording b backendUrl (e\<lparr> fallback_reply := reply \<rparr>) =
           uploadRecording b backendUrl e"
proof -
  have "try_upload (upload_request b backendUrl (upload_clock e)) e = Inl err"
    using assms by (auto simp: try_upload_def)
  then show ?thesis
    by (simp add: uploadRecording_def Let_def try_upload_def)
qed

theorem uploadRecording_fallback_witness:
  "fetch rejecting (upload_request clip ''http://localhost:8000'' (upload_clock rejecting))
     = Inr \<lparr> resp_status = 500, resp_json = Inl ''Unexpected token'' \<rparr> \<and>
   \<not> resp_ok \<lparr> resp_status = 500, resp_json = Inl ''Unexpected token'' \<rparr> \<and>
   uploadRecording clip ''http://localhost:8000'' rejecting =
     (JObj [(''success'', JBool False), (''error'', JStr ''Upload failed: 500''),
            (''savedLocally'', JBool True)],
      [Fetch \<lparr> req_url = ''http://localhost:8000/upload'',
               req_method = ''POST'',
               req_fields = [(''video'', clip, ''recording_1700000000000.webm'')] \<rparr>,
       CreateObjectURL clip,
       SendMessage (DownloadFallback ''blob:chrome-extension://feedfilter/1''
         ''linkedin_recording_1700000000250.webm'')])"
  using uploadRecording_fallback [of rejecting clip "''http://localhost:8000''"
          "''Upload failed: 500''" "Inr JUndefined"]
  by (simp add: rejecting_def resp_ok_def upload_request_def strip_slash_def
        show_int_def show_nat.simps digit_char_def)

section \<open>The capture\<close>

subsection \<open>The invariant is kept\<close>

lemma ondataavailable_fields:
  "mediaRecorder (ondataavailable d w) = mediaRecorder w"
  "mediaStream (ondataavailable d w) = mediaStream w"
  "recordedChunks (ondataavailable d w) =
     recordedChunks w @ filter (\<lambda>c. blob_size c > 0) [d]"
  by (simp_all add: ondataavailable_def)

lemma worker_inv_ondataavailable: "worker_inv w \<Longrightarrow> worker_inv (ondataavailable d w)"
  by (auto simp: worker_inv_def ondataavailable_fields)

lemma worker_inv_startCapture: "worker_inv w \<Longrightarrow> worker_inv (snd (startCapture sid ce w))"
  by (auto simp: worker_inv_def startCapture_def Let_def split: sum.splits option.splits)

lemma stopCapture_state:
  "snd (snd (stopCapture u fl e w)) =
     (case mediaRecorder w of
        None \<Rightarrow> w
      | Some r \<Rightarrow> if rec_state r = Inactive then w
                  else ondataavailable fl (w\<lparr> mediaRecorder := Some (r\<lparr> rec_state := Inactive \<rparr>) \<rparr>))"
  by (simp add: stopCapture_def Let_def split: option.splits prod.splits)

lemma worker_inv_stopCapture: "worker_inv w \<Longrightarrow> worker_inv (snd (snd (stopCapture u fl e w)))"
  by (auto simp: stopCapture_state worker_inv_def ondataavailable_fields split: option.splits)

lemma worker_inv_step: "worker_inv w \<Longrightarrow> worker_inv (worker_step ev w)"
  by (cases ev)
     (simp_all add: worker_inv_startCapture worker_inv_ondataavailable worker_inv_stopCapture)

lemma worker_inv_run: "worker_inv w \<Longrightarrow> worker_inv (worker_run evs w)"
  unfolding worker_run_def
  by (induction evs arbitrary: w) (simp_all add: worker_inv_step)

lemma worker_inv_fresh: "worker_inv fresh"
  by (simp add: worker_inv_def fresh_def)

subsection \<open>Stopping a capture\<close>

lemma uploadRecording_effects:
  "\<exists>result rest. uploadRecording b u e = (result, Fetch (upload_request b u (upload_clock e)) # rest) \<and>
     (\<forall>t. TrackStop t \<notin> set rest) \<and> (\<forall>req. Fetch req \<notin> set rest)"
  by (auto simp: uploadRecording_def Let_def split: sum.splits)

lemma stopCapture_run:
  assumes "mediaRecorder w = Some r" and "rec_state r \<noteq> Inactive"
  shows "\<exists>result rest w'.
           w' = ondataavailable fl (w\<lparr> mediaRecorder := Some (r\<lparr> rec_state := Inactive \<rparr>) \<rparr>) \<and>
           stopCapture u fl e w =
             (result,
              RecorderStop #
                (case mediaStream w of None \<Rightarrow> [] | Some st \<Rightarrow> map TrackStop (tracks st)) @
                Fetch (upload_request (new_Blob (recordedChunks w') ''video/webm'') u (upload_clock e))
                  # rest,
              w') \<and>
           (result, Fetch (upload_request (new_Blob (recordedChunks w') ''video/webm'') u (upload_clock e))
                  # rest) = uploadRecording (new_Blob (recordedChunks w') ''video/webm'') u e \<and>
           (\<forall>t. TrackStop t \<notin> set rest) \<and> (\<forall>req. Fetch req \<notin> set rest)"
proof -
  let ?w' = "ondataavailable fl (w\<lparr> mediaRecorder := Some (r\<lparr> rec_state := Inactive \<rparr>) \<rparr>)"
  from uploadRecording_effects [of "new_Blob (recordedChunks ?w') ''video/webm''" u e]
  obtain result rest where
    up: "uploadRecording (new_Blob (recordedChunks ?w') ''video/webm'') u e =
           (result, Fetch (upload_request (new_Blob (recordedChunks ?w') ''video/webm'') u
                             (upload_clock e)) # rest)"
    and clean: "\<forall>t. TrackStop t \<notin> set rest" "\<forall>req. Fetch req \<notin> set rest"
    by blast
  have "stopCapture u fl e w =
          (result,
           RecorderStop #
             (case mediaStream w of None \<Rightarrow> [] | Some st \<Rightarrow> map TrackStop (tracks st)) @
             Fetch (upload_request (new_Blob (recordedChunks ?w') ''video/webm'') u (upload_clock e))
               # rest,
           ?w')"
    using assms up
    by (simp add: stopCapture_def onstop_def Let_def ondataavailable_fields)
  with up clean show ?thesis by auto
qed

text \<open>
  C6. In every reachable state of the worker in which \<open>stopCapture\<close> passes its check, a
  stream is held, and the run stops the recorder, then stops each track of that stream
  once, in the order \<open>getTracks\<close> lists them, and only then makes the upload request;
  nothing after the request stops a track or makes another request, whether the upload
  succeeds or fails. A further \<open>stopCapture\<close> finds the recorder inactive and does
  nothing.
\<close>

theorem stopCapture_teardown:
  assumes "w = worker_run evs fresh"
    and "mediaRecorder w = Some r"
    and "rec_state r \<noteq> Inactive"
  shows "\<exists>st result req rest w'.
           mediaStream w = Some st \<and>
           stopCapture backendUrl flushed e w =
             (result, RecorderStop # map TrackStop (tracks st) @ Fetch req # rest, w') \<and>
           (\<forall>t. TrackStop t \<notin> set rest) \<and>
           (\<forall>req'. Fetch req' \<notin> set rest) \<and>
           stopCapture backendUrl' flushed' e' w' = (failure ''No active recording'', [], w')"
proof -
  have "worker_inv w" using assms(1) worker_inv_run [OF worker_inv_fresh] by simp
  with assms(2) obtain st where st: "mediaStream w = Some st"
    by (auto simp: worker_inv_def)
  from stopCapture_run [OF assms(2,3), where u = backendUrl and fl = flushed and e = e] st
  obtain result req rest w' where
    w': "w' = ondataavailable flushed (w\<lparr> mediaRecorder := Some (r\<lparr> rec_state := Inactive \<rparr>) \<rparr>)"
    and run: "stopCapture backendUrl flushed e w =
             (result, RecorderStop # map TrackStop (tracks st) @ Fetch req # rest, w')"
    and clean: "\<forall>t. TrackStop t \<notin> set rest" "\<forall>req'. Fetch req' \<notin> set rest"
    by auto
  have "stopCapture backendUrl' flushed' e' w' = (failure ''No active recording'', [], w')"
    by (simp add: w' stopCapture_def ondataavailable_fields)
  with st run clean show ?thesis by blast
qed


theorem stopCapture_teardown_witness:
  "worker_run [Start ''stream-1'' granted, Data clip, Data empty_chunk, Data clip] fresh
     = capturing \<and>
   mediaRecorder capturing
     = Some \<lparr> rec_stream = \<lparr> sourceId = ''stream-1'', tracks = [0] \<rparr>,
              rec_state = Recording \<rparr> \<and>
   stopCapture ''http://localhost:8000'' empty_chunk rejecting capturing =
     (JObj [(''success'', JBool False), (''error'', JStr ''Upload failed: 500''),
            (''savedLocally'', JBool True)],
      [RecorderStop,
       TrackStop 0,
       Fetch (upload_request (new_Blob [clip, clip] ''video/webm'') ''http://localhost:8000''
                1700000000000),
       CreateObjectURL (new_Blob [clip, clip] ''video/webm''),
       SendMessage (DownloadFallback ''blob:chrome-extension://feedfilter/1''
         ''linkedin_recording_1700000000250.webm'')],
      capturing\<lparr> mediaRecorder :=
        Some \<lparr> rec_stream = \<lparr> sourceId = ''stream-1'', tracks = [0] \<rparr>,
               rec_state = Inactive \<rparr> \<rparr>)"
  using stopCapture_teardown [of capturing
          "[Start ''stream-1'' granted, Data clip, Data empty_chunk, Data clip]"
          "\<lparr> rec_stream = \<lparr> sourceId = ''stream-1'', tracks = [0] \<rparr>, rec_state = Recording \<rparr>"
          "''http://localhost:8000''" empty_chunk rejecting "''http://localhost:8000''"
          empty_chunk rejecting]
  by (simp add: worker_run_def startCapture_def granted_def fresh_def capturing_def
        ondataavailable_def blob_size_def clip_def empty_chunk_def stopCapture_def onstop_def
        uploadRecording_def try_upload_def rejecting_def resp_ok_def Let_def
        show_int_def show_nat.simps digit_char_def)

lemma new_Blob_payload: "payload (new_Blob parts ty) = concat (map payload parts)"
  by (simp add: new_Blob_def)

text \<open>
  C7. A \<open>stopCapture\<close> that passes its check uploads exactly one artifact, and its payload
  is the concatenation, in order, of the chunks in the buffer once the last chunk has
  been handed over: for a buffer \<open>[c1, c2, c3]\<close> the payload is that of \<open>c1\<close>, \<open>c2\<close>, \<open>c3\<close>
  in a row. With no chunk in the buffer the artifact has length zero and is uploaded as
  any other: the result is the one the upload of the empty artifact gives.
\<close>

theorem stopCapture_artifact:
  assumes "mediaRecorder w = Some r"
    and "rec_state r \<noteq> Inactive"
  shows "\<exists>result pre rest w' b.
           stopCapture backendUrl flushed e w =
             (result, pre @ Fetch (upload_request b backendUrl (upload_clock e)) # rest, w') \<and>
           (\<forall>req. Fetch req \<notin> set pre \<and> Fetch req \<notin> set rest) \<and>
           recordedChunks w' = recordedChunks (ondataavailable flushed w) \<and>
           b = new_Blob (recordedChunks w') ''video/webm'' \<and>
           payload b = concat (map payload (recordedChunks w')) \<and>
           (\<forall>c1 c2 c3. recordedChunks w' = [c1, c2, c3] \<longrightarrow>
              payload b = payload c1 @ payload c2 @ payload c3) \<and>
           (recordedChunks w' = [] \<longrightarrow>
              blob_size b = 0 \<and>
              result = fst (uploadRecording \<lparr> payload = [], mime = ''video/webm'' \<rparr>
                              backendUrl e))"
proof -
  from stopCapture_run [OF assms, where u = backendUrl and fl = flushed and e = e]
  obtain result rest w' where
    w': "w' = ondataavailable flushed (w\<lparr> mediaRecorder := Some (r\<lparr> rec_state := Inactive \<rparr>) \<rparr>)"
    and run: "stopCapture backendUrl flushed e w =
             (result,
              (RecorderStop #
                (case mediaStream w of None \<Rightarrow> [] | Some st \<Rightarrow> map TrackStop (tracks st))) @
                Fetch (upload_request (new_Blob (recordedChunks w') ''video/webm'') backendUrl
                         (upload_clock e)) # rest,
              w')"
    and up: "(result, Fetch (upload_request (new_Blob (recordedChunks w') ''video/webm'')
                               backendUrl (upload_clock e)) # rest)
               = uploadRecording (new_Blob (recordedChunks w') ''video/webm'') backendUrl e"
    and clean: "\<forall>req. Fetch req \<notin> set rest"
    by auto
  let ?pre = "RecorderStop #
                (case mediaStream w of None \<Rightarrow> [] | Some st \<Rightarrow> map TrackStop (tracks st))"
  let ?b = "new_Blob (recordedChunks w') ''video/webm''"
  have pre: "\<forall>req. Fetch req \<notin> set ?pre"
    by (auto split: option.splits)
  have chunks: "recordedChunks w' = recordedChunks (ondataavailable flushed w)"
    by (simp add: w' ondataavailable_fields)
  have empty: "recordedChunks w' = [] \<longrightarrow>
                 blob_size ?b = 0 \<and>
                 result = fst (uploadRecording \<lparr> payload = [], mime = ''video/webm'' \<rparr>
                                 backendUrl e)"
  proof
    assume "recordedChunks w' = []"
    then have "?b = \<lparr> payload = [], mime = ''video/webm'' \<rparr>" by (simp add: new_Blob_def)
    then show "blob_size ?b = 0 \<and>
                 result = fst (uploadRecording \<lparr> payload = [], mime = ''video/webm'' \<rparr>
                                 backendUrl e)"
      using up [symmetric] by (simp add: blob_size_def)
  qed
  have three: "\<forall>c1 c2 c3. recordedChunks w' = [c1, c2, c3] \<longrightarrow>
              payload ?b = payload c1 @ payload c2 @ payload c3"
    by (simp add: new_Blob_payload)
  show ?thesis
    using run pre clean chunks empty three new_Blob_payload [of "recordedChunks w'" "''video/webm''"]
    by blast
qed


theorem stopCapture_artifact_witness:
  "mediaRecorder capturing
     = Some \<lparr> rec_stream = \<lparr> sourceId = ''stream-1'', tracks = [0] \<rparr>,
              rec_state = Recording \<rparr> \<and>
   recordedChunks (ondataavailable clip capturing) = [clip, clip, clip] \<and>
   stopCapture ''http://localhost:8000'' clip accepting capturing =
     (JObj [(''success'', JBool True), (''filename'', JStr ''rec.webm'')],
      [RecorderStop,
       TrackStop 0,
       Fetch (upload_request
                \<lparr> payload = [26, 69, 223, 163, 26, 69, 223, 163, 26, 69, 223, 163],
                  mime = ''video/webm'' \<rparr>
                ''http://localhost:8000'' 1700000000000)],
      capturing\<lparr> mediaRecorder :=
                   Some \<lparr> rec_stream = \<lparr> sourceId = ''stream-1'', tracks = [0] \<rparr>,
                          rec_state = Inactive \<rparr>,
                 recordedChunks := [clip, clip, clip] \<rparr>) \<and>
   recordedChunks (ondataavailable empty_chunk (capturing\<lparr> recordedChunks := [] \<rparr>)) = [] \<and>
   stopCapture ''http://localhost:8000'' empty_chunk accepting
       (capturing\<lparr> recordedChunks := [] \<rparr>) =
     (JObj [(''success'', JBool True), (''filename'', JStr ''rec.webm'')],
      [RecorderStop,
       TrackStop 0,
       Fetch (upload_request \<lparr> payload = [], mime = ''video/webm'' \<rparr>
                ''http://localhost:8000'' 1700000000000)],
      capturing\<lparr> mediaRecorder :=
                   Some \<lparr> rec_stream = \<lparr> sourceId = ''stream-1'', tracks = [0] \<rparr>,
                          rec_state = Inactive \<rparr>,
                 recordedChunks := [] \<rparr>)"
  using stopCapture_artifact [of capturing
          "\<lparr> rec_stream = \<lparr> sourceId = ''stream-1'', tracks = [0] \<rparr>, rec_state = Recording \<rparr>"
          "''http://localhost:8000''" clip accepting]
        stopCapture_artifact [of "capturing\<lparr> recordedChunks := [] \<rparr>"
          "\<lparr> rec_stream = \<lparr> sourceId = ''stream-1'', tracks = [0] \<rparr>, rec_state = Recording \<rparr>"
          "''http://localhost:8000''" empty_chunk accepting]
  by (simp add: capturing_def ondataavailable_def blob_size_def clip_def empty_chunk_def
        stopCapture_def onstop_def new_Blob_def uploadRecording_def try_upload_def
        accepting_def resp_ok_def spread_def Let_def)

subsection \<open>What the buffer holds\<close>

lemma run_Data:
  "mediaRecorder (worker_run (map Data cs) w) = mediaRecorder w \<and>
   mediaStream (worker_run (map Data cs) w) = mediaStream w \<and>
   recordedChunks (worker_run (map Data cs) w)
     = recordedChunks w @ filter (\<lambda>c. blob_size c > 0) cs"
  unfolding worker_run_def
  by (induction cs arbitrary: w) (simp_all add: ondataavailable_fields)

lemma startCapture_started:
  assumes "fst (startCapture streamId ce w) = JObj [(''success'', JBool True)]"
  shows "\<exists>st. mediaRecorder (snd (startCapture streamId ce w))
                 = Some \<lparr> rec_stream = st, rec_state = Recording \<rparr> \<and>
              mediaStream (snd (startCapture streamId ce w)) = Some st \<and>
              recordedChunks (snd (startCapture streamId ce w)) = []"
  using assms
  by (auto simp: startCapture_def Let_def failure_def split: sum.splits option.splits)

text \<open>
  C10. In every reachable state of the worker every chunk in the buffer is non-empty:
  \<open>ondataavailable\<close> drops a chunk of size zero and appends any other. So for a capture,
  a successful \<open>startCapture\<close>, the chunks \<open>cs\<close> the recorder hands over, and a
  \<open>stopCapture\<close> that hands over the last chunk, the buffer and the payload uploaded are
  exactly the non-empty chunks among them, in the order they were produced.
\<close>

theorem buffer_holds_nonempty_chunks:
  "(\<forall>c \<in> set (recordedChunks (worker_run evs fresh)). blob_size c > 0) \<and>
   ondataavailable data w =
     (if blob_size data = 0 then w else w\<lparr> recordedChunks := recordedChunks w @ [data] \<rparr>) \<and>
   (fst (startCapture streamId ce w) = JObj [(''success'', JBool True)] \<longrightarrow>
      (\<exists>result effects w'.
         stopCapture backendUrl flushed e
             (worker_run (map Data cs) (snd (startCapture streamId ce w)))
           = (result, effects, w') \<and>
         recordedChunks w' = filter (\<lambda>c. blob_size c > 0) (cs @ [flushed]) \<and>
         Fetch (upload_request
                  \<lparr> payload = concat (map payload
                                (filter (\<lambda>c. blob_size c > 0) (cs @ [flushed]))),
                    mime = ''video/webm'' \<rparr>
                  backendUrl (upload_clock e)) \<in> set effects))"
proof -
  have inv: "\<forall>c \<in> set (recordedChunks (worker_run evs fresh)). blob_size c > 0"
    using worker_inv_run [OF worker_inv_fresh, of evs] by (simp add: worker_inv_def)
  have handler: "ondataavailable data w =
     (if blob_size data = 0 then w else w\<lparr> recordedChunks := recordedChunks w @ [data] \<rparr>)"
    by (simp add: ondataavailable_def)
  have capture: "\<exists>result effects w'.
         stopCapture backendUrl flushed e
             (worker_run (map Data cs) (snd (startCapture streamId ce w)))
           = (result, effects, w') \<and>
         recordedChunks w' = filter (\<lambda>c. blob_size c > 0) (cs @ [flushed]) \<and>
         Fetch (upload_request
                  \<lparr> payload = concat (map payload
                                (filter (\<lambda>c. blob_size c > 0) (cs @ [flushed]))),
                    mime = ''video/webm'' \<rparr>
                  backendUrl (upload_clock e)) \<in> set effects"
    if ok: "fst (startCapture streamId ce w) = JObj [(''success'', JBool True)]"
  proof -
    let ?w1 = "snd (startCapture streamId ce w)"
    let ?w2 = "worker_run (map Data cs) ?w1"
    from startCapture_started [OF ok] obtain st where
      rec: "mediaRecorder ?w1 = Some \<lparr> rec_stream = st, rec_state = Recording \<rparr>"
      and buf: "recordedChunks ?w1 = []"
      by blast
    have rec2: "mediaRecorder ?w2 = Some \<lparr> rec_stream = st, rec_state = Recording \<rparr>"
      and buf2: "recordedChunks ?w2 = filter (\<lambda>c. blob_size c > 0) cs"
      using run_Data [of cs ?w1] rec buf by simp_all
    have active: "rec_state \<lparr> rec_stream = st, rec_state = Recording \<rparr> \<noteq> Inactive" by simp
    from stopCapture_run [OF rec2 active, where u = backendUrl and fl = flushed and e = e]
    obtain result rest w' where
      w': "w' = ondataavailable flushed
                  (?w2\<lparr> mediaRecorder :=
                          Some (\<lparr> rec_stream = st, rec_state = Recording \<rparr>
                                  \<lparr> rec_state := Inactive \<rparr>) \<rparr>)"
      and run: "stopCapture backendUrl flushed e ?w2 =
             (result,
              RecorderStop #
                (case mediaStream ?w2 of None \<Rightarrow> [] | Some st \<Rightarrow> map TrackStop (tracks st)) @
                Fetch (upload_request (new_Blob (recordedChunks w') ''video/webm'') backendUrl
                         (upload_clock e)) # rest,
              w')"
      by auto
    have chunks: "recordedChunks w' = filter (\<lambda>c. blob_size c > 0) (cs @ [flushed])"
      by (simp add: w' ondataavailable_fields buf2)
    have "Fetch (upload_request (new_Blob (recordedChunks w') ''video/webm'') backendUrl
                         (upload_clock e))
            \<in> set (RecorderStop #
                (case mediaStream ?w2 of None \<Rightarrow> [] | Some st \<Rightarrow> map TrackStop (tracks st)) @
                Fetch (upload_request (new_Blob (recordedChunks w') ''video/webm'') backendUrl
                         (upload_clock e)) # rest)"
      by simp
    with run chunks show ?thesis by (simp add: new_Blob_def)
  qed
  show ?thesis using inv handler capture by blast
qed

theorem buffer_holds_nonempty_chunks_witness:
  "fst (startCapture ''stream-1'' granted fresh) = JObj [(''success'', JBool True)] \<and>
   stopCapture ''http://localhost:8000'' empty_chunk accepting
       (worker_run (map Data [clip, empty_chunk, clip])
          (snd (startCapture ''stream-1'' granted fresh))) =
     (JObj [(''success'', JBool True), (''filename'', JStr ''rec.webm'')],
      [RecorderStop,
       TrackStop 0,
       Fetch (upload_request
                \<lparr> payload = [26, 69, 223, 163, 26, 69, 223, 163], mime = ''video/webm'' \<rparr>
                ''http://localhost:8000'' 1700000000000)],
      capturing\<lparr> mediaRecorder :=
                   Some \<lparr> rec_stream = \<lparr> sourceId = ''stream-1'', tracks = [0] \<rparr>,
                          rec_state = Inactive \<rparr> \<rparr>)"
  using buffer_holds_nonempty_chunks [of "[]" empty_chunk fresh "''stream-1''" granted
          "''http://localhost:8000''" empty_chunk accepting "[clip, empty_chunk, clip]"]
  by (simp add: worker_run_def startCapture_def granted_def fresh_def capturing_def
        ondataavailable_def blob_size_def clip_def empty_chunk_def stopCapture_def onstop_def
        new_Blob_def uploadRecording_def try_upload_def accepting_def resp_ok_def spread_def
        Let_def)

end
